theory Spec2Isabelle
  imports Complex_Main
begin

section \<open>The values of the language\<close>

subsection \<open>Numbers\<close>

text \<open>
  A \<^verbatim>\<open>number\<close> of the source is an IEEE 754 binary64 value. \<open>Fin q\<close> is the finite
  value \<open>q\<close> (a rational that binary64 represents exactly), \<open>Fin 0\<close> is \<open>+0\<close> and
  \<open>NegZero\<close> is \<open>-0\<close>. The operator \<^verbatim>\<open>+\<close> on numbers and \<^verbatim>\<open>toString\<close> are those of
  the language standard (\<^verbatim>\<open>Number::add\<close> and \<^verbatim>\<open>Number::toString\<close> in radix 10).
\<close>

datatype number = NaN | PosInf | NegInf | NegZero | Fin rat

definition pow :: "int \<Rightarrow> int \<Rightarrow> rat" where
  \<comment> \<open>\<open>b\<close> to an integer power, as a rational\<close>
  "pow b e = (if 0 \<le> e then of_int b ^ nat e else 1 / of_int b ^ nat (- e))"

function ndigits :: "int \<Rightarrow> int \<Rightarrow> int" where
  \<comment> \<open>the number of digits of \<open>n\<close> in base \<open>b\<close>\<close>
  "ndigits b n = (if b < 2 \<or> n < b then 1 else 1 + ndigits b (n div b))"
  by pat_completeness auto
termination
  by (relation "measure (\<lambda>(b, n). nat n)") (auto intro: int_div_less_self)

declare ndigits.simps [simp del]

definition ilog :: "int \<Rightarrow> rat \<Rightarrow> int" where
  \<comment> \<open>the integer \<open>e\<close> with \<open>b ^ e \<le> x < b ^ (e + 1)\<close>, for \<open>0 < x\<close>\<close>
  "ilog b x =
     (if 1 \<le> x then ndigits b \<lfloor>x\<rfloor> - 1
      else - ndigits b (\<lceil>1 / x\<rceil> - 1))"

definition round_even :: "rat \<Rightarrow> int" where
  \<comment> \<open>the nearest integer, a tie going to the even one\<close>
  "round_even q =
     (let f = \<lfloor>q\<rfloor>; r = q - of_int f
      in if r < 1 / 2 then f
         else if 1 / 2 < r then f + 1
         else if even f then f else f + 1)"

definition round_double :: "rat \<Rightarrow> number" where
  \<comment> \<open>round to nearest binary64, ties to even: 53 significant bits, the least exponent
      \<open>-1074\<close>, overflow to an infinity from \<open>2 ^ 1024\<close> on\<close>
  "round_double q =
     (if q = 0 then Fin 0
      else
        let a = \<bar>q\<bar>;
            e = max (ilog 2 a - 52) (- 1074);
            m = round_even (a / pow 2 e);
            r = of_int m * pow 2 e
        in if pow 2 1024 \<le> r then (if q < 0 then NegInf else PosInf)
           else if m = 0 then (if q < 0 then NegZero else Fin 0)
           else Fin (if q < 0 then - r else r))"

fun Number_add :: "number \<Rightarrow> number \<Rightarrow> number" where
  \<comment> \<open>the operator \<^verbatim>\<open>+\<close> on two numbers\<close>
  "Number_add NaN y = NaN"
| "Number_add x NaN = NaN"
| "Number_add PosInf NegInf = NaN"
| "Number_add NegInf PosInf = NaN"
| "Number_add PosInf y = PosInf"
| "Number_add x PosInf = PosInf"
| "Number_add NegInf y = NegInf"
| "Number_add x NegInf = NegInf"
| "Number_add NegZero NegZero = NegZero"
| "Number_add NegZero (Fin y) = Fin y"
| "Number_add (Fin x) NegZero = Fin x"
| "Number_add (Fin x) (Fin y) = round_double (x + y)"

text \<open>
  \<^verbatim>\<open>toString\<close> of a number prints the shortest decimal numeral that rounds back to the
  number: \<open>k\<close> digits \<open>s\<close> and a decimal exponent \<open>n\<close> with
  \<open>10 ^ (k - 1) \<le> s < 10 ^ k\<close> and \<open>s * 10 ^ (n - k)\<close> rounding to the number, \<open>k\<close> least;
  of two such numerals the nearer one, and the even one on a tie.
\<close>

definition digit_char :: "int \<Rightarrow> char" where
  "digit_char d = ''0123456789'' ! nat d"

function digits :: "int \<Rightarrow> string" where
  \<comment> \<open>the decimal numeral of \<open>0 \<le> n\<close>\<close>
  "digits n = (if n < 10 then [digit_char n] else digits (n div 10) @ [digit_char (n mod 10)])"
  by pat_completeness auto
termination
  by (relation "measure nat") (auto intro: int_div_less_self)

declare digits.simps [simp del]

definition candidate :: "rat \<Rightarrow> int \<Rightarrow> int \<Rightarrow> (int \<times> int) option" where
  \<comment> \<open>the \<open>k\<close>-digit numeral \<open>(s, n)\<close> next to \<open>x\<close> that rounds to \<open>x\<close>, if there is one;
      \<open>n0\<close> is the decimal exponent of \<open>x\<close>, \<open>10 ^ (n0 - 1) \<le> x < 10 ^ n0\<close>\<close>
  "candidate x n0 k =
     (let scale = pow 10 (n0 - k);
          lo = \<lfloor>x / scale\<rfloor>;
          hi = lo + 1;
          ok_lo = (round_double (of_int lo * scale) = Fin x);
          ok_hi = (round_double (of_int hi * scale) = Fin x);
          d_lo = x - of_int lo * scale;
          d_hi = of_int hi * scale - x;
          up = (if hi = 10 ^ nat k then (10 ^ nat (k - 1), n0 + 1) else (hi, n0))
      in if ok_lo \<and> ok_hi then
           (if d_lo < d_hi \<or> (d_lo = d_hi \<and> even lo) then Some (lo, n0) else Some up)
         else if ok_lo then Some (lo, n0)
         else if ok_hi then Some up
         else None)"

function shortest :: "rat \<Rightarrow> int \<Rightarrow> int \<Rightarrow> int \<times> int" where
  \<comment> \<open>the candidate of the least length from \<open>k\<close> on; 17 digits always suffice for a
      binary64 value, so the truncation to 17 digits is not reached on one\<close>
  "shortest x n0 k =
     (case candidate x n0 k of
        Some sn \<Rightarrow> sn
      | None \<Rightarrow>
          if 17 \<le> k then (\<lfloor>x / pow 10 (n0 - 17)\<rfloor>, n0) else shortest x n0 (k + 1))"
  by pat_completeness auto
termination
  by (relation "measure (\<lambda>(x, n0, k). nat (17 - k))") auto

declare shortest.simps [simp del]

definition format_decimal :: "int \<Rightarrow> int \<Rightarrow> string" where
  \<comment> \<open>the digits \<open>s\<close> with the decimal point after the \<open>n\<close>-th digit: plain notation for
      \<open>-6 < n \<le> 21\<close>, exponent notation otherwise\<close>
  "format_decimal s n =
     (let ds = digits s; k = int (length ds)
      in if k \<le> n \<and> n \<le> 21 then ds @ replicate (nat (n - k)) (CHR ''0'')
         else if 0 < n \<and> n \<le> 21 then take (nat n) ds @ ''.'' @ drop (nat n) ds
         else if - 6 < n \<and> n \<le> 0 then ''0.'' @ replicate (nat (- n)) (CHR ''0'') @ ds
         else
           let e = n - 1;
               ex = (if e < 0 then ''-'' else ''+'') @ digits \<bar>e\<bar>
           in if k = 1 then ds @ ''e'' @ ex
              else take 1 ds @ ''.'' @ drop 1 ds @ ''e'' @ ex)"

definition positive_toString :: "rat \<Rightarrow> string" where
  "positive_toString x =
     (case shortest x (ilog 10 x + 1) 1 of (s, n) \<Rightarrow> format_decimal s n)"

fun Number_toString :: "number \<Rightarrow> string" where
  "Number_toString NaN = ''NaN''"
| "Number_toString PosInf = ''Infinity''"
| "Number_toString NegInf = ''-Infinity''"
| "Number_toString NegZero = ''0''"
| "Number_toString (Fin x) =
     (if x = 0 then ''0''
      else if x < 0 then ''-'' @ positive_toString (- x)
      else positive_toString x)"

subsection \<open>Values, objects and the environment\<close>

text \<open>
  The values the script handles. An object is the list of its own properties, in
  insertion order; a \<^verbatim>\<open>Date\<close> is its time value in milliseconds. Members inherited from
  the built-in prototypes are not part of this universe.
\<close>

datatype jsval =
    Undefined
  | Null
  | Bool bool
  | Num number
  | Str string
  | Date int
  | Arr "jsval list"
  | Obj "(string \<times> jsval) list"

type_synonym object = "(string \<times> jsval) list"

definition has_property :: "string \<Rightarrow> object \<Rightarrow> bool" where
  \<comment> \<open>\<^verbatim>\<open>k in o\<close>\<close>
  "has_property k ps = (k \<in> set (map fst ps))"

definition get_prop :: "object \<Rightarrow> string \<Rightarrow> jsval" where
  \<comment> \<open>\<^verbatim>\<open>o.k\<close> on an object: \<^verbatim>\<open>undefined\<close> when \<open>o\<close> has no such property\<close>
  "get_prop ps k = (case map_of ps k of None \<Rightarrow> Undefined | Some v \<Rightarrow> v)"

fun put_prop :: "string \<Rightarrow> jsval \<Rightarrow> object \<Rightarrow> object" where
  \<comment> \<open>\<^verbatim>\<open>o.k = v\<close> on an object: the property is overwritten, or added at the end\<close>
  "put_prop k v [] = [(k, v)]"
| "put_prop k v ((k', v') # ps) =
     (if k' = k then (k, v) # ps else (k', v') # put_prop k v ps)"

fun ToBoolean :: "jsval \<Rightarrow> bool" where
  "ToBoolean Undefined = False"
| "ToBoolean Null = False"
| "ToBoolean (Bool b) = b"
| "ToBoolean (Num n) = (n \<noteq> NaN \<and> n \<noteq> Fin 0 \<and> n \<noteq> NegZero)"
| "ToBoolean (Str s) = (s \<noteq> [])"
| "ToBoolean (Date t) = True"
| "ToBoolean (Arr xs) = True"
| "ToBoolean (Obj ps) = True"

text \<open>
  The errors the script can raise: a \<^verbatim>\<open>TypeError\<close> of the language, and the
  \<^verbatim>\<open>InvalidStateError\<close> exception of the document interfaces.
\<close>

datatype error = TypeError string | InvalidStateError

text \<open>
  \<^verbatim>\<open>class Car\<close> and \<^verbatim>\<open>class Truck\<close> have no fields: a vehicle is an instance of one of
  the two classes.
\<close>

datatype Vehicle = Car | Truck

subsection \<open>Elements of the document\<close>

text \<open>
  The states of the \<^verbatim>\<open>type\<close> attribute of an \<^verbatim>\<open>input\<close> element, and the mode of the
  \<^verbatim>\<open>value\<close> attribute of the interface \<^verbatim>\<open>HTMLInputElement\<close> that each state selects.
\<close>

datatype input_type =
    InHidden | InText | InSearch | InTel | InUrl | InEmail | InPassword
  | InDate | InMonth | InWeek | InTime | InDatetimeLocal | InNumber | InRange | InColor
  | InCheckbox | InRadio | InFile | InSubmit | InImage | InReset | InButton

datatype value_mode = ModeValue | ModeDefault | ModeDefaultOn | ModeFilename

fun mode_of :: "input_type \<Rightarrow> value_mode" where
  "mode_of InHidden = ModeDefault"
| "mode_of InSubmit = ModeDefault"
| "mode_of InImage = ModeDefault"
| "mode_of InReset = ModeDefault"
| "mode_of InButton = ModeDefault"
| "mode_of InCheckbox = ModeDefaultOn"
| "mode_of InRadio = ModeDefaultOn"
| "mode_of InFile = ModeFilename"
| "mode_of ty = ModeValue"

text \<open>
  An element is an \<^verbatim>\<open>input\<close> element, or an element of an interface that has no
  \<^verbatim>\<open>value\<close> member (a \<^verbatim>\<open>div\<close>, a \<^verbatim>\<open>p\<close>); the other form controls are not part of
  the documents considered here.
\<close>

datatype element_interface = HTMLInputElement input_type | OtherElement

text \<open>
  What a write to \<^verbatim>\<open>value\<close> reads and changes in an element: its \<^verbatim>\<open>id\<close> (empty when it
  has none); its interface; the value sanitization algorithm that its type and
  attributes define (stripping the newlines on a text input, the identity where the type
  defines none); its value and dirty value flag; its \<^verbatim>\<open>value\<close> content attribute; its
  list of selected files; and the own properties that scripts have added to the object.
  The selection of a text control, which a write may also move, is left out.
\<close>

record element =
  ident :: string
  interface :: element_interface
  sanitization :: "string \<Rightarrow> string"
  current_value :: string
  dirty_value :: bool
  value_attribute :: "string option"
  selected_files :: "string list"
  own_properties :: object

definition strip_newlines :: "string \<Rightarrow> string" where
  \<comment> \<open>the value sanitization algorithm of the types text, search, tel and password\<close>
  "strip_newlines s = filter (\<lambda>c. c \<noteq> CHR 0x0A \<and> c \<noteq> CHR 0x0D) s"

definition set_input_value :: "input_type \<Rightarrow> string \<Rightarrow> element \<Rightarrow> error + element" where
  \<comment> \<open>the setter of \<^verbatim>\<open>value\<close> on an \<^verbatim>\<open>input\<close> element in the state \<open>ty\<close>. In the mode
      value the element's value becomes the sanitized string and the dirty value flag is
      set. In the modes default and default/on the content attribute is set, and the
      value follows the attribute as long as the dirty value flag is not set. In the mode
      filename the empty string empties the selected files and any other string is
      refused.\<close>
  "set_input_value ty v el =
     (case mode_of ty of
        ModeValue \<Rightarrow>
          Inr (el\<lparr>current_value := sanitization el v, dirty_value := True\<rparr>)
      | ModeFilename \<Rightarrow>
          if v = [] then Inr (el\<lparr>selected_files := []\<rparr>) else Inl InvalidStateError
      | _ \<Rightarrow>
          Inr (el\<lparr>value_attribute := Some v,
                 current_value :=
                   (if dirty_value el then current_value el else sanitization el v)\<rparr>))"

definition put_value :: "string \<Rightarrow> element \<Rightarrow> error + element" where
  \<comment> \<open>\<^verbatim>\<open>el.value = v\<close> on an element: the setter of an \<^verbatim>\<open>input\<close> element; on an
      element without a \<^verbatim>\<open>value\<close> member an own property is written, or added\<close>
  "put_value v el =
     (case interface el of
        HTMLInputElement ty \<Rightarrow> set_input_value ty v el
      | OtherElement \<Rightarrow>
          Inr (el\<lparr>own_properties := put_prop ''value'' (Str v) (own_properties el)\<rparr>))"

text \<open>
  What the script does to its environment, in order: a call of \<^verbatim>\<open>console.log\<close> with its
  arguments, and an assignment to a property of an element of the document that the
  element accepted. \<open>Invoke\<close> marks the entry into a method of a vehicle (the receiver,
  the method, the arguments): it is how the number of calls of a method is counted.
\<close>

datatype event =
    Log "jsval list"
  | Invoke Vehicle string "jsval list"
  | Assign nat string jsval

text \<open>
  The environment: the elements of the document (an element is referred to by its
  position) and the events so far.
\<close>

record world =
  document :: "element list"
  trace :: "event list"

definition console_log :: "jsval list \<Rightarrow> world \<Rightarrow> world" where
  "console_log args w = w\<lparr>trace := trace w @ [Log args]\<rparr>"

section \<open>Intersection types and type guards\<close>

definition e1 :: "int \<Rightarrow> object" where
  \<comment> \<open>the constant \<^verbatim>\<open>e1\<close>; \<open>now\<close> is the time \<^verbatim>\<open>new Date()\<close> reads\<close>
  "e1 now =
     [(''name'', Str ''Geo''),
      (''privileges'', Arr [Str ''create-server'']),
      (''startDate'', Date now)]"

definition printEmployeeInformation :: "object \<Rightarrow> world \<Rightarrow> world" where
  "printEmployeeInformation emp w =
     (let w1 = console_log [Str ''Name: '', get_prop emp ''name''] w;
          w2 = (if has_property ''privileges'' emp
                then console_log [Str ''Privileges: '', get_prop emp ''privileges''] w1
                else w1);
          w3 = (if has_property ''startDate'' emp
                then console_log [Str ''Start Date: '', get_prop emp ''startDate''] w2
                else w2)
      in w3)"

definition Car_drive :: "world \<Rightarrow> world" where
  "Car_drive w =
     console_log [Str ''Driving...''] (w\<lparr>trace := trace w @ [Invoke Car ''drive'' []]\<rparr>)"

definition Truck_drive :: "world \<Rightarrow> world" where
  "Truck_drive w =
     console_log [Str ''Driving a truck...'']
       (w\<lparr>trace := trace w @ [Invoke Truck ''drive'' []]\<rparr>)"

definition Truck_loadCargo :: "number \<Rightarrow> world \<Rightarrow> world" where
  "Truck_loadCargo amount w =
     console_log [Str (''loading cargo...'' @ Number_toString amount)]
       (w\<lparr>trace := trace w @ [Invoke Truck ''loadCargo'' [Num amount]]\<rparr>)"

fun drive :: "Vehicle \<Rightarrow> world \<Rightarrow> world" where
  \<comment> \<open>\<^verbatim>\<open>vehicle.drive()\<close>: the method of the receiver's class\<close>
  "drive Car w = Car_drive w"
| "drive Truck w = Truck_drive w"

definition instanceof_Truck :: "Vehicle \<Rightarrow> bool" where
  "instanceof_Truck vehicle = (vehicle = Truck)"

definition useVehicle :: "Vehicle \<Rightarrow> world \<Rightarrow> world" where
  "useVehicle vehicle w =
     (let w1 = drive vehicle w
      in if instanceof_Truck vehicle then Truck_loadCargo (Fin 1000) w1 else w1)"

definition invocations :: "string \<Rightarrow> world \<Rightarrow> nat" where
  \<comment> \<open>how many times the method \<open>m\<close> has been entered\<close>
  "invocations m w =
     length (filter (\<lambda>ev. case ev of Invoke _ m' _ \<Rightarrow> m' = m | _ \<Rightarrow> False) (trace w))"

definition logged :: "string \<Rightarrow> world \<Rightarrow> bool" where
  \<comment> \<open>a line with the label \<open>l\<close> and one value has been printed\<close>
  "logged l w =
     list_ex (\<lambda>ev. case ev of Log [Str l', v] \<Rightarrow> l' = l | _ \<Rightarrow> False) (trace w)"

section \<open>Discriminated unions\<close>

text \<open>
  An animal as the function receives it at run time: the discriminator and the two speed
  fields, either of which the object may lack. A \<^verbatim>\<open>Bird\<close> has the discriminator
  \<^verbatim>\<open>"bird"\<close> and a \<open>flyingSpeed\<close>, a \<^verbatim>\<open>Horse\<close> the discriminator \<^verbatim>\<open>"horse"\<close> and a
  \<open>runningSpeed\<close>.
\<close>

record Animal =
  type :: string
  flyingSpeed :: "number option"
  runningSpeed :: "number option"

definition moveAnimal_speed :: "Animal \<Rightarrow> number option" where
  \<comment> \<open>the \<^verbatim>\<open>switch\<close>: the variable \<^verbatim>\<open>speed\<close> after it, \<open>None\<close> for \<^verbatim>\<open>undefined\<close>\<close>
  "moveAnimal_speed animal =
     (if type animal = ''bird'' then flyingSpeed animal
      else if type animal = ''horse'' then runningSpeed animal
      else None)"

fun speed_text :: "number option \<Rightarrow> string" where
  \<comment> \<open>the string that \<^verbatim>\<open>+\<close> makes of the variable\<close>
  "speed_text None = ''undefined''"
| "speed_text (Some n) = Number_toString n"

definition moveAnimal :: "Animal \<Rightarrow> world \<Rightarrow> world" where
  "moveAnimal animal w =
     (let speed = moveAnimal_speed animal
      in console_log [Str (''Moving with speed: '' @ speed_text speed)] w)"

section \<open>Type casting\<close>

text \<open>
  \<^verbatim>\<open>document.getElementById\<close> returns the first element with the given \<^verbatim>\<open>id\<close>, or
  \<^verbatim>\<open>null\<close> (\<open>None\<close>). The assertions \<^verbatim>\<open>!\<close>, \<^verbatim>\<open><HTMLInputElement>\<close> and
  \<^verbatim>\<open>as HTMLInputElement\<close> are erased by the compiler: they do nothing at run time.
\<close>

fun find_id :: "string \<Rightarrow> element list \<Rightarrow> nat option" where
  "find_id i [] = None"
| "find_id i (el # els) =
     (if ident el = i then Some 0 else map_option Suc (find_id i els))"

definition getElementById :: "world \<Rightarrow> string \<Rightarrow> nat option" where
  \<comment> \<open>no element has the empty string as its \<^verbatim>\<open>id\<close>\<close>
  "getElementById w i = (if i = [] then None else find_id i (document w))"

definition assign_value :: "nat option \<Rightarrow> string \<Rightarrow> world \<Rightarrow> error + world" where
  \<comment> \<open>\<^verbatim>\<open>target.value = v\<close>, the target being what \<open>getElementById\<close> returned: a
      \<^verbatim>\<open>TypeError\<close> on \<^verbatim>\<open>null\<close>; on an element the write of \<open>put_value\<close>, whose error,
      if it raises one, is the error of the statement\<close>
  "assign_value target v w =
     (case target of
        None \<Rightarrow> Inl (TypeError ''Cannot set properties of null'')
      | Some r \<Rightarrow>
          (case put_value v (document w ! r) of
             Inl e \<Rightarrow> Inl e
           | Inr el' \<Rightarrow>
               Inr (w\<lparr>document := (document w)[r := el'],
                      trace := trace w @ [Assign r ''value'' (Str v)]\<rparr>)))"

definition userInputElement1 :: "world \<Rightarrow> error + world" where
  \<comment> \<open>lines 154 and 155\<close>
  "userInputElement1 w =
     (let el = getElementById w ''user-input''
      in assign_value el ''Hi there!'' w)"

definition userInputElement2 :: "world \<Rightarrow> error + world" where
  \<comment> \<open>lines 158 and 159\<close>
  "userInputElement2 w =
     (let el = getElementById w ''user-input''
      in assign_value el ''Hi there!'' w)"

definition userInputElement3 :: "world \<Rightarrow> error + world" where
  \<comment> \<open>lines 164 to 167; an element is truthy, \<^verbatim>\<open>null\<close> is not\<close>
  "userInputElement3 w =
     (let el = getElementById w ''user-input''
      in if el \<noteq> None
         then assign_value el ''Hi there!'' w
         else Inr w)"

definition unchecked_writes :: "world \<Rightarrow> error + world" where
  \<comment> \<open>lines 154 to 159 in sequence: an uncaught error ends the script\<close>
  "unchecked_writes w =
     (case userInputElement1 w of Inl e \<Rightarrow> Inl e | Inr w' \<Rightarrow> userInputElement2 w')"

definition user_input :: "element_interface \<Rightarrow> (string \<Rightarrow> string) \<Rightarrow> element" where
  \<comment> \<open>an element with the \<^verbatim>\<open>id\<close> \<^verbatim>\<open>user-input\<close> as the parser creates it from a tag
      with no other attribute\<close>
  "user_input itf san =
     \<lparr>ident = ''user-input'', interface = itf, sanitization = san, current_value = [],
      dirty_value = False, value_attribute = None, selected_files = [],
      own_properties = []\<rparr>"

section \<open>Function overloads\<close>

text \<open>\<^verbatim>\<open>type Combinable = string | number\<close>\<close>

datatype Combinable = CNum number | CStr string

fun typeof :: "Combinable \<Rightarrow> string" where
  "typeof (CNum x) = ''number''"
| "typeof (CStr s) = ''string''"

fun toString :: "Combinable \<Rightarrow> string" where
  "toString (CNum x) = Number_toString x"
| "toString (CStr s) = s"

fun plus_operator :: "Combinable \<Rightarrow> Combinable \<Rightarrow> Combinable" where
  \<comment> \<open>the operator \<^verbatim>\<open>+\<close>: addition on two numbers, concatenation otherwise\<close>
  "plus_operator (CNum x) (CNum y) = CNum (Number_add x y)"
| "plus_operator a b = CStr (toString a @ toString b)"

definition add :: "Combinable \<Rightarrow> Combinable \<Rightarrow> Combinable" where
  "add a b =
     (if typeof a = ''string'' \<or> typeof b = ''string''
      then CStr (toString a @ toString b)
      else plus_operator a b)"

fun split_on :: "char \<Rightarrow> string \<Rightarrow> string list" where
  \<comment> \<open>\<^verbatim>\<open>s.split(c)\<close> for a separator of one character\<close>
  "split_on c [] = [[]]"
| "split_on c (x # xs) =
     (if x = c then [] # split_on c xs
      else case split_on c xs of
             [] \<Rightarrow> [[x]]
           | piece # pieces \<Rightarrow> (x # piece) # pieces)"

fun split :: "Combinable \<Rightarrow> char \<Rightarrow> error + string list" where
  \<comment> \<open>\<^verbatim>\<open>v.split(c)\<close>: a number has no such method\<close>
  "split (CStr s) c = Inr (split_on c s)"
| "split (CNum x) c = Inl (TypeError ''split is not a function'')"

definition result :: Combinable where
  "result = add (CNum (Fin 1)) (CNum (Fin 5))"

definition result2 :: Combinable where
  "result2 = add (CStr ''Geo'') (CStr '' Sauer'')"

section \<open>Optional chaining and nullish coalescing\<close>








fun nullish_coalescing :: "jsval \<Rightarrow> jsval \<Rightarrow> jsval" where
  \<comment> \<open>\<^verbatim>\<open>a ?? b\<close>\<close>
  "nullish_coalescing Undefined b = b"
| "nullish_coalescing Null b = b"
| "nullish_coalescing a b = a"

definition logical_or :: "jsval \<Rightarrow> jsval \<Rightarrow> jsval" where
  \<comment> \<open>\<^verbatim>\<open>a || b\<close>\<close>
  "logical_or a b = (if ToBoolean a then a else b)"

definition userInput :: jsval where
  "userInput = Null"

definition storedData :: jsval where
  "storedData = logical_or userInput (Str ''DEFAULT'')"

definition storedDatas :: jsval where
  "storedDatas = nullish_coalescing userInput (Str ''DEFAULT'')"

section \<open>Properties of the numbers\<close>

text \<open>
  The digit count brackets its argument between two powers of the base, so \<open>ilog\<close> is
  the integer logarithm; \<open>round_even\<close> is within a half of its argument; and rounding to
  binary64 leaves an integer below \<open>2 ^ 53\<close> in magnitude as it is, so that the sum of two
  numbers is exact when it is such an integer.
\<close>

lemma ndigits_pos: "1 \<le> ndigits b n"
proof (induction b n rule: ndigits.induct)
  case (1 b n)
  then show ?case by (subst ndigits.simps) auto
qed

lemma ndigits_bounds:
  "2 \<le> b \<Longrightarrow> 1 \<le> n \<Longrightarrow> b ^ nat (ndigits b n - 1) \<le> n \<and> n < b ^ nat (ndigits b n)"
proof (induction b n rule: ndigits.induct)
  case (1 b n)
  show ?case
  proof (cases "n < b")
    case True
    with "1.prems" show ?thesis by (simp add: ndigits.simps [of b n])
  next
    case False
    with "1.prems" have "0 < n div b"
      using pos_imp_zdiv_pos_iff [of b n] by simp
    then have *: "1 \<le> n div b" by simp
    from False "1.prems" have nd: "ndigits b n = 1 + ndigits b (n div b)"
      by (simp add: ndigits.simps [of b n])
    define k where "k = nat (ndigits b (n div b) - 1)"
    have pos: "1 \<le> ndigits b (n div b)"
      by (rule ndigits_pos)
    then have k1: "nat (ndigits b (n div b)) = Suc k" and k2: "nat (ndigits b n - 1) = Suc k"
      by (simp_all add: k_def nd)
    have k3: "nat (ndigits b n) = Suc (Suc k)"
      using pos by (simp add: k_def nd)
    have IH: "b ^ k \<le> n div b \<and> n div b < b ^ Suc k"
      using "1.IH" False "1.prems" * k1 by (simp add: k_def)
    define d where "d = n div b"
    define r where "r = n mod b"
    have split: "n = b * d + r"
      by (simp add: d_def r_def)
    have m: "0 \<le> r" "r < b"
      using "1.prems" by (simp_all add: r_def)
    have "b * b ^ k \<le> b * d"
      using IH "1.prems" by (simp add: mult_left_mono d_def)
    moreover have "b * d \<le> n"
      using split m by linarith
    ultimately have lo: "b ^ Suc k \<le> n"
      by (simp only: power_Suc)
    have "d + 1 \<le> b ^ Suc k"
      using IH by (simp add: d_def)
    then have "b * (d + 1) \<le> b * b ^ Suc k"
      using "1.prems" by (simp add: mult_left_mono)
    moreover have "n < b * (d + 1)"
      using split m by (simp add: algebra_simps)
    ultimately have hi: "n < b ^ Suc (Suc k)"
      by (simp only: power_Suc)
    show ?thesis using lo hi k2 k3 by simp
  qed
qed

lemma round_even_nearest: "\<bar>of_int (round_even q) - q\<bar> \<le> 1 / 2"
proof -
  have "of_int \<lfloor>q\<rfloor> \<le> q" "q < of_int \<lfloor>q\<rfloor> + 1"
    by linarith+
  then show ?thesis
    unfolding round_even_def Let_def by (auto simp: abs_le_iff)
qed

lemma round_even_of_int: "round_even (of_int z) = z"
  by (simp add: round_even_def)

lemma pow_nonneg: "0 \<le> e \<Longrightarrow> pow b e = of_int (b ^ nat e)"
  by (simp add: pow_def)

lemma pow_neg: "e < 0 \<Longrightarrow> pow b e = 1 / of_int (b ^ nat (- e))"
  by (simp add: pow_def)

lemma ilog_bounds:
  assumes b: "2 \<le> b" and x: "0 < x"
  shows "pow b (ilog b x) \<le> x \<and> x < pow b (ilog b x + 1)"
proof (cases "1 \<le> x")
  case True
  define n where "n = \<lfloor>x\<rfloor>"
  have n1: "1 \<le> n" using True by (simp add: n_def le_floor_iff)
  have nx: "of_int n \<le> x" "x < of_int n + 1"
    unfolding n_def by linarith+
  have e: "ilog b x = ndigits b n - 1"
    using True by (simp add: ilog_def n_def)
  have pos: "1 \<le> ndigits b n" by (rule ndigits_pos)
  from ndigits_bounds [OF b n1]
  have lo: "b ^ nat (ndigits b n - 1) \<le> n" and hi: "n + 1 \<le> b ^ nat (ndigits b n)"
    by simp_all
  have "pow b (ilog b x) = of_int (b ^ nat (ndigits b n - 1))"
    using pos by (simp add: e pow_nonneg)
  also have "\<dots> \<le> of_int n" using lo by (simp only: of_int_le_iff)
  finally have 1: "pow b (ilog b x) \<le> x" using nx by simp
  have "x < of_int (n + 1)" using nx by simp
  also have "\<dots> \<le> of_int (b ^ nat (ndigits b n))" using hi by (simp only: of_int_le_iff)
  also have "\<dots> = pow b (ilog b x + 1)"
    using pos by (simp add: e pow_nonneg)
  finally show ?thesis using 1 by simp
next
  case False
  define y where "y = 1 / x"
  have y1: "1 < y" using False x by (simp add: y_def)
  define t where "t = \<lceil>y\<rceil> - 1"
  have t1: "1 \<le> t" using y1 by (simp add: t_def less_ceiling_iff)
  have ty: "of_int t < y" "y \<le> of_int t + 1"
    unfolding t_def by linarith+
  define j where "j = ndigits b t"
  have e: "ilog b x = - j"
    using False by (simp add: ilog_def j_def t_def y_def)
  have pos: "1 \<le> j" unfolding j_def by (rule ndigits_pos)
  from ndigits_bounds [OF b t1]
  have lo: "b ^ nat (j - 1) \<le> t" and hi: "t + 1 \<le> b ^ nat j"
    by (simp_all add: j_def)
  have bpos: "0 < (of_int (b ^ nat j) :: rat)" "0 < (of_int (b ^ nat (j - 1)) :: rat)"
    using b by simp_all
  have "y \<le> of_int (t + 1)" using ty by simp
  also have "\<dots> \<le> of_int (b ^ nat j)" using hi by (simp only: of_int_le_iff)
  finally have "1 / of_int (b ^ nat j) \<le> x"
    using x bpos by (simp add: y_def field_simps)
  then have 1: "pow b (ilog b x) \<le> x"
    using pos by (simp add: e pow_neg)
  have "of_int (b ^ nat (j - 1)) \<le> (of_int t :: rat)" using lo by (simp only: of_int_le_iff)
  also have "\<dots> < y" by fact
  finally have 2: "x < 1 / of_int (b ^ nat (j - 1))"
    using x bpos by (simp add: y_def field_simps)
  have "x < pow b (ilog b x + 1)"
  proof (cases "j = 1")
    case True
    then show ?thesis using False by (simp add: e pow_def)
  next
    case False
    then have "- j + 1 < 0" using pos by simp
    then have "pow b (- j + 1) = 1 / of_int (b ^ nat (j - 1))"
      by (simp add: pow_neg)
    then show ?thesis using 2 by (simp add: e)
  qed
  then show ?thesis using 1 by simp
qed

lemma round_double_of_int:
  assumes z: "\<bar>z\<bar> < 2 ^ 53"
  shows "round_double (of_int z) = Fin (of_int z)"
proof (cases "z = 0")
  case True
  then show ?thesis by (simp add: round_double_def)
next
  case False
  define n where "n = \<bar>z\<bar>"
  have n1: "1 \<le> n" using False by (simp add: n_def)
  have a: "\<bar>rat_of_int z\<bar> = of_int n" by (simp add: n_def)
  define d where "d = 53 - ndigits 2 n"
  have "(2::int) ^ nat (ndigits 2 n - 1) \<le> n"
    using ndigits_bounds [of 2 n] n1 by simp
  also have "n < 2 ^ 53" using z by (simp add: n_def)
  finally have "(2::int) ^ nat (ndigits 2 n - 1) < 2 ^ 53" .
  then have "nat (ndigits 2 n - 1) < 53"
    by (rule power_less_imp_less_exp [rotated]) simp
  then have d0: "0 \<le> d" by (simp add: d_def)
  have d52: "d \<le> 52" using ndigits_pos [of 2 n] by (simp add: d_def)
  have il: "ilog 2 (of_int n) = ndigits 2 n - 1"
    using n1 by (simp add: ilog_def)
  have e: "max (ilog 2 (of_int n) - 52) (- 1074) = - d"
    using d52 by (simp add: il d_def)
  have p: "pow 2 (- d) = 1 / of_int (2 ^ nat d)"
    using d0 by (cases "d = 0") (simp_all add: pow_def)
  have m: "round_even (of_int n / pow 2 (- d)) = n * 2 ^ nat d"
    using round_even_of_int [of "n * 2 ^ nat d"] by (simp add: p)
  have r: "rat_of_int (n * 2 ^ nat d) * pow 2 (- d) = of_int n"
    by (simp add: p)
  have big: "\<not> pow 2 1024 \<le> rat_of_int n"
  proof -
    have "n < 2 ^ 1024" using \<open>n < 2 ^ 53\<close> by simp
    then have "rat_of_int n < of_int (2 ^ 1024)" by (simp only: of_int_less_iff)
    then show ?thesis by (simp add: pow_def)
  qed
  have nz: "n * 2 ^ nat d \<noteq> 0" using n1 by simp
  have "round_double (of_int z) = Fin (if z < 0 then - rat_of_int n else of_int n)"
    using False big nz
    by (simp add: round_double_def Let_def a e m r del: of_int_mult of_int_power)
  then show ?thesis
    by (simp add: n_def)
qed

lemma Number_add_of_int:
  "\<bar>x + y\<bar> < 2 ^ 53 \<Longrightarrow>
   Number_add (Fin (of_int x)) (Fin (of_int y)) = Fin (of_int (x + y))"
  using round_double_of_int [of "x + y"] by simp

section \<open>Evaluating numbers\<close>

text \<open>
  The simplifier computes \<open>\<lfloor>a / b\<rfloor>\<close> and \<open>\<lceil>a / b\<rceil>\<close> for rational numerals with these
  rules.
\<close>

lemma floor_rat_numeral [simp]:
  "\<lfloor>numeral a / numeral b :: rat\<rfloor> = numeral a div numeral b"
  using floor_divide_of_int_eq [of "numeral a" "numeral b", where ?'a = rat] by simp

lemma ceiling_rat_numeral [simp]:
  "\<lceil>numeral a / numeral b :: rat\<rceil> = - (- numeral a div numeral b)"
  using ceiling_divide_eq_div [of "numeral a" "numeral b", where ?'a = rat] by simp

lemma floor_rat_one_numeral [simp]:
  "\<lfloor>1 / numeral b :: rat\<rfloor> = 1 div numeral b"
  using floor_divide_of_int_eq [of 1 "numeral b", where ?'a = rat] by simp

lemma ceiling_rat_one_numeral [simp]:
  "\<lceil>1 / numeral b :: rat\<rceil> = - (- 1 div numeral b)"
  using ceiling_divide_eq_div [of 1 "numeral b", where ?'a = rat] by simp

lemmas rounding_defs = round_double_def Let_def ilog_def round_even_def pow_def

lemma Number_add_commute: "Number_add x y = Number_add y x"
  by (cases x; cases y) (simp_all add: add.commute)

lemma Number_add_1_5: "Number_add (Fin 1) (Fin 5) = Fin 6"
  unfolding Number_add.simps rounding_defs by (simp add: ndigits.simps)

text \<open>\<^verbatim>\<open>27.5\<close> needs three digits: neither \<^verbatim>\<open>2e1\<close>, \<^verbatim>\<open>3e1\<close>, \<^verbatim>\<open>27\<close> nor \<^verbatim>\<open>28\<close> rounds to it.\<close>

lemma candidate_27_5:
  "candidate (55 / 2) 2 1 = None"
  "candidate (55 / 2) 2 2 = None"
  "candidate (55 / 2) 2 3 = Some (275, 2)"
  unfolding candidate_def rounding_defs by (simp_all add: ndigits.simps)

lemma shortest_27_5: "shortest (55 / 2) (ilog 10 (55 / 2) + 1) 1 = (275, 2)"
proof -
  have "ilog 10 (55 / 2) + 1 = 2"
    unfolding ilog_def by (simp add: ndigits.simps)
  then show ?thesis
    by (simp add: shortest.simps [of _ _ 1] shortest.simps [of _ _ 2]
        shortest.simps [of _ _ 3] candidate_27_5)
qed

lemma format_decimal_27_5: "format_decimal 275 2 = ''27.5''"
  unfolding format_decimal_def Let_def by (simp add: digits.simps digit_char_def)

lemma Number_toString_27_5: "Number_toString (Fin (55 / 2)) = ''27.5''"
  by (simp add: positive_toString_def shortest_27_5 format_decimal_27_5)

lemma candidate_1000: "candidate 1000 4 1 = Some (1, 4)"
  unfolding candidate_def rounding_defs by (simp add: ndigits.simps)

lemma shortest_1000: "shortest 1000 (ilog 10 1000 + 1) 1 = (1, 4)"
proof -
  have "ilog 10 1000 + 1 = 4"
    unfolding ilog_def by (simp add: ndigits.simps)
  then show ?thesis
    by (simp add: shortest.simps [of _ _ 1] candidate_1000)
qed

lemma format_decimal_1000: "format_decimal 1 4 = ''1000''"
  unfolding format_decimal_def Let_def
  by (simp add: digits.simps digit_char_def eval_nat_numeral)

lemma Number_toString_1000: "Number_toString (Fin 1000) = ''1000''"
  by (simp add: positive_toString_def shortest_1000 format_decimal_1000)

section \<open>The overloaded \<^verbatim>\<open>add\<close>\<close>

text \<open>
  Claim C1. On two numbers \<open>add\<close> returns their sum, the \<^verbatim>\<open>+\<close> of the language on
  numbers: the exact sum rounded to binary64, which is the exact sum itself when that is
  an integer below \<open>2 ^ 53\<close> in magnitude. As soon as one input is a string it
  returns the concatenation of the textual forms of both inputs: this covers the four
  rows of the overload table, since an input is a number or a string. In the script,
  \<^verbatim>\<open>add(1, 5)\<close> is the number 6 and \<^verbatim>\<open>add("Geo", " Sauer")\<close> is the string
  \<^verbatim>\<open>"Geo Sauer"\<close>, which \<^verbatim>\<open>split(" ")\<close> then cuts into \<^verbatim>\<open>"Geo"\<close> and \<^verbatim>\<open>"Sauer"\<close>.
\<close>

theorem add_resolution:
  "add (CNum x) (CNum y) = CNum (Number_add x y) \<and>
   (\<bar>i + j\<bar> < 2 ^ 53 \<longrightarrow>
      add (CNum (Fin (of_int i))) (CNum (Fin (of_int j))) = CNum (Fin (of_int (i + j)))) \<and>
   add (CStr s) b = CStr (toString (CStr s) @ toString b) \<and>
   add a (CStr s) = CStr (toString a @ toString (CStr s)) \<and>
   result = CNum (Fin 6) \<and>
   result2 = CStr ''Geo Sauer'' \<and>
   split result2 (CHR '' '') = Inr [''Geo'', ''Sauer'']"
  by (simp add: add_def result_def result2_def Number_add_1_5 Number_add_of_int
      del: Number_add.simps)

text \<open>The two calls of the script and the two mixed rows of the table.\<close>

theorem add_resolution_witness:
  "add (CNum (Fin 1)) (CNum (Fin 5)) = CNum (Fin 6) \<and>
   add (CStr ''Geo'') (CStr '' Sauer'') = CStr ''Geo Sauer'' \<and>
   add (CStr ''Geo'') (CNum (Fin 1000)) = CStr ''Geo1000'' \<and>
   add (CNum (Fin 1000)) (CStr ''Geo'') = CStr ''1000Geo''"
  using add_resolution [of "Fin 1" "Fin 5" 1 5 "''Geo''" "CStr '' Sauer''" "CStr ''Geo''"]
    add_resolution [of "Fin 1" "Fin 5" 1 5 "''Geo''" "CNum (Fin 1000)" "CNum (Fin 1000)"]
  by (simp add: Number_toString_1000 del: Number_add.simps Number_toString.simps)

text \<open>
  Claim C10. On two numbers \<open>add\<close> is commutative; on strings it is not:
  \<^verbatim>\<open>add("Geo", " Sauer")\<close> and \<^verbatim>\<open>add(" Sauer", "Geo")\<close> differ.
\<close>

theorem add_commutes_on_numbers:
  "add (CNum x) (CNum y) = add (CNum y) (CNum x) \<and>
   add (CStr ''Geo'') (CStr '' Sauer'') \<noteq> add (CStr '' Sauer'') (CStr ''Geo'')"
  by (simp add: add_def Number_add_commute del: Number_add.simps)

section \<open>Type guards\<close>

lemma trace_console_log: "trace (console_log args w) = trace w @ [Log args]"
  by (simp add: console_log_def)

text \<open>
  Claim C4. \<open>printEmployeeInformation\<close> prints the name line whatever the object is,
  then the privileges line exactly when the object has a \<^verbatim>\<open>privileges\<close> property, then
  the start-date line exactly when it has a \<^verbatim>\<open>startDate\<close> property; each of the two
  tests looks at its own property only. Started on an empty trace, a privileges line
  (a start-date line) has been printed if and only if the object has the property.
\<close>

theorem printEmployeeInformation_lines:
  "trace (printEmployeeInformation emp w) =
     trace w @ [Log [Str ''Name: '', get_prop emp ''name'']] @
     (if has_property ''privileges'' emp
      then [Log [Str ''Privileges: '', get_prop emp ''privileges'']] else []) @
     (if has_property ''startDate'' emp
      then [Log [Str ''Start Date: '', get_prop emp ''startDate'']] else []) \<and>
   logged ''Name: '' (printEmployeeInformation emp w) \<and>
   logged ''Privileges: '' (printEmployeeInformation emp (w\<lparr>trace := []\<rparr>)) =
     has_property ''privileges'' emp \<and>
   logged ''Start Date: '' (printEmployeeInformation emp (w\<lparr>trace := []\<rparr>)) =
     has_property ''startDate'' emp"
  by (simp add: printEmployeeInformation_def console_log_def logged_def Let_def)

text \<open>
  The four combinations: \<^verbatim>\<open>e1\<close> has both properties, the second object of the script
  only a start date, the third only privileges, the last neither.
\<close>

theorem printEmployeeInformation_lines_witness:
  "trace (printEmployeeInformation (e1 0) \<lparr>document = [], trace = []\<rparr>) =
     [Log [Str ''Name: '', Str ''Geo''],
      Log [Str ''Privileges: '', Arr [Str ''create-server'']],
      Log [Str ''Start Date: '', Date 0]] \<and>
   trace (printEmployeeInformation [(''name'', Str ''Kallyn''), (''startDate'', Date 0)]
       \<lparr>document = [], trace = []\<rparr>) =
     [Log [Str ''Name: '', Str ''Kallyn''], Log [Str ''Start Date: '', Date 0]] \<and>
   trace (printEmployeeInformation [(''name'', Str ''Max''), (''privileges'', Arr [])]
       \<lparr>document = [], trace = []\<rparr>) =
     [Log [Str ''Name: '', Str ''Max''], Log [Str ''Privileges: '', Arr []]] \<and>
   trace (printEmployeeInformation [(''name'', Str ''Max'')] \<lparr>document = [], trace = []\<rparr>) =
     [Log [Str ''Name: '', Str ''Max'']]"
  using printEmployeeInformation_lines [of "e1 0" "\<lparr>document = [], trace = []\<rparr>"]
    printEmployeeInformation_lines
      [of "[(''name'', Str ''Kallyn''), (''startDate'', Date 0)]"
          "\<lparr>document = [], trace = []\<rparr>"]
    printEmployeeInformation_lines
      [of "[(''name'', Str ''Max''), (''privileges'', Arr [])]"
          "\<lparr>document = [], trace = []\<rparr>"]
    printEmployeeInformation_lines
      [of "[(''name'', Str ''Max'')]" "\<lparr>document = [], trace = []\<rparr>"]
  by (simp add: e1_def has_property_def get_prop_def)

text \<open>
  Claim C5. One call of \<open>useVehicle\<close> on a \<open>Truck\<close> enters \<^verbatim>\<open>drive\<close> once and
  \<^verbatim>\<open>loadCargo\<close> once (with the amount 1000); on a \<open>Car\<close> it enters \<^verbatim>\<open>drive\<close> once and
  \<^verbatim>\<open>loadCargo\<close> not at all.
\<close>

theorem useVehicle_invocations:
  "invocations ''drive'' (useVehicle Truck w) = invocations ''drive'' w + 1 \<and>
   invocations ''loadCargo'' (useVehicle Truck w) = invocations ''loadCargo'' w + 1 \<and>
   invocations ''drive'' (useVehicle Car w) = invocations ''drive'' w + 1 \<and>
   invocations ''loadCargo'' (useVehicle Car w) = invocations ''loadCargo'' w \<and>
   trace (useVehicle Truck w) =
     trace w @
     [Invoke Truck ''drive'' [], Log [Str ''Driving a truck...''],
      Invoke Truck ''loadCargo'' [Num (Fin 1000)], Log [Str ''loading cargo...1000'']] \<and>
   trace (useVehicle Car w) = trace w @ [Invoke Car ''drive'' [], Log [Str ''Driving...'']]"
  by (simp add: useVehicle_def instanceof_Truck_def Car_drive_def Truck_drive_def
      Truck_loadCargo_def console_log_def invocations_def Number_toString_1000
      del: Number_toString.simps)

section \<open>The dispatch on the discriminator\<close>

text \<open>
  Claim C2. For an animal whose discriminator is \<^verbatim>\<open>"bird"\<close> the speed that
  \<open>moveAnimal\<close> reports is the \<open>flyingSpeed\<close> field; for one whose discriminator is
  \<^verbatim>\<open>"horse"\<close> it is the \<open>runningSpeed\<close> field.
\<close>

theorem moveAnimal_reports_variant_speed:
  "(type animal = ''bird'' \<longrightarrow>
      moveAnimal_speed animal = flyingSpeed animal \<and>
      moveAnimal animal w =
        w\<lparr>trace := trace w @
          [Log [Str (''Moving with speed: '' @ speed_text (flyingSpeed animal))]]\<rparr>) \<and>
   (type animal = ''horse'' \<longrightarrow>
      moveAnimal_speed animal = runningSpeed animal \<and>
      moveAnimal animal w =
        w\<lparr>trace := trace w @
          [Log [Str (''Moving with speed: '' @ speed_text (runningSpeed animal))]]\<rparr>)"
  by (simp add: moveAnimal_def moveAnimal_speed_def console_log_def)

text \<open>The call of the script, \<^verbatim>\<open>moveAnimal({ type: "bird", flyingSpeed: 27.5 })\<close>, and a horse.\<close>

theorem moveAnimal_reports_variant_speed_witness:
  "moveAnimal \<lparr>type = ''bird'', flyingSpeed = Some (Fin (55 / 2)), runningSpeed = None\<rparr>
     \<lparr>document = [], trace = []\<rparr> =
     \<lparr>document = [], trace = [Log [Str ''Moving with speed: 27.5'']]\<rparr> \<and>
   moveAnimal \<lparr>type = ''horse'', flyingSpeed = None, runningSpeed = Some (Fin 1000)\<rparr>
     \<lparr>document = [], trace = []\<rparr> =
     \<lparr>document = [], trace = [Log [Str ''Moving with speed: 1000'']]\<rparr>"
  using moveAnimal_reports_variant_speed
      [of "\<lparr>type = ''bird'', flyingSpeed = Some (Fin (55 / 2)), runningSpeed = None\<rparr>"
          "\<lparr>document = [], trace = []\<rparr>"]
    moveAnimal_reports_variant_speed
      [of "\<lparr>type = ''horse'', flyingSpeed = None, runningSpeed = Some (Fin 1000)\<rparr>"
          "\<lparr>document = [], trace = []\<rparr>"]
  by (simp add: Number_toString_27_5 Number_toString_1000 del: Number_toString.simps)

text \<open>
  Claim C3 says that a discriminator which is neither \<^verbatim>\<open>"bird"\<close> nor \<^verbatim>\<open>"horse"\<close> is
  treated as an invariant violation and that no line with an undefined speed is
  printed. The \<^verbatim>\<open>switch\<close> has no \<^verbatim>\<open>default\<close> branch and the function raises nothing:
  on the object \<^verbatim>\<open>{ type: "fish" }\<close> it prints \<^verbatim>\<open>Moving with speed: undefined\<close>.
\<close>

theorem moveAnimal_unknown_tag_counterexample:
  "type \<lparr>type = ''fish'', flyingSpeed = None, runningSpeed = None\<rparr> \<noteq> ''bird'' \<and>
   type \<lparr>type = ''fish'', flyingSpeed = None, runningSpeed = None\<rparr> \<noteq> ''horse'' \<and>
   moveAnimal \<lparr>type = ''fish'', flyingSpeed = None, runningSpeed = None\<rparr>
     \<lparr>document = [], trace = []\<rparr> =
     \<lparr>document = [], trace = [Log [Str ''Moving with speed: undefined'']]\<rparr>"
  by (simp add: moveAnimal_def moveAnimal_speed_def console_log_def)

text \<open>
  Claim C3 as amended. The type \<^verbatim>\<open>Animal\<close> admits no other discriminator, and the
  function does not check for one: for every object whose discriminator is neither
  \<^verbatim>\<open>"bird"\<close> nor \<^verbatim>\<open>"horse"\<close> the variable \<^verbatim>\<open>speed\<close> stays undefined, whatever the
  speed fields hold, and the one line printed is \<^verbatim>\<open>Moving with speed: undefined\<close>.
\<close>

theorem moveAnimal_unknown_tag_logs_undefined:
  "type animal \<noteq> ''bird'' \<Longrightarrow> type animal \<noteq> ''horse'' \<Longrightarrow>
   moveAnimal_speed animal = None \<and>
   moveAnimal animal w = w\<lparr>trace := trace w @ [Log [Str ''Moving with speed: undefined'']]\<rparr>"
  by (simp add: moveAnimal_def moveAnimal_speed_def console_log_def)

theorem moveAnimal_unknown_tag_logs_undefined_witness:
  "moveAnimal \<lparr>type = ''fish'', flyingSpeed = Some (Fin 1), runningSpeed = Some (Fin 5)\<rparr>
     \<lparr>document = [], trace = []\<rparr> =
     \<lparr>document = [], trace = [Log [Str ''Moving with speed: undefined'']]\<rparr>"
  using moveAnimal_unknown_tag_logs_undefined
      [of "\<lparr>type = ''fish'', flyingSpeed = Some (Fin 1), runningSpeed = Some (Fin 5)\<rparr>"
          "\<lparr>document = [], trace = []\<rparr>"]
  by simp

section \<open>Writing to the input element\<close>

lemma find_id_Some:
  "find_id i els = Some r \<Longrightarrow> r < length els \<and> ident (els ! r) = i"
  by (induction els arbitrary: r) (auto split: if_splits)

lemma strip_newlines_Hi_there: "strip_newlines ''Hi there!'' = ''Hi there!''"
  by (simp add: strip_newlines_def)

text \<open>
  Claim C6 says that on every present input element the guarded path performs one write
  of the text to the \<^verbatim>\<open>value\<close> field. The guard excludes \<^verbatim>\<open>null\<close> only: on an
  \<^verbatim>\<open>input\<close> element of the type \<^verbatim>\<open>file\<close> the setter refuses every string but the empty
  one, so the guarded path raises \<^verbatim>\<open>InvalidStateError\<close> and writes nothing.
\<close>

theorem guarded_write_file_input_counterexample:
  "getElementById \<lparr>document = [user_input (HTMLInputElement InFile) id], trace = []\<rparr>
     ''user-input'' = Some 0 \<and>
   interface
     (document \<lparr>document = [user_input (HTMLInputElement InFile) id], trace = []\<rparr> ! 0) =
     HTMLInputElement InFile \<and>
   userInputElement3 \<lparr>document = [user_input (HTMLInputElement InFile) id], trace = []\<rparr> =
     Inl InvalidStateError"
  by (simp add: userInputElement3_def assign_value_def getElementById_def put_value_def
      set_input_value_def user_input_def)

text \<open>
  Claim C6 as amended. When the lookup finds no element, the guarded path raises nothing
  and attempts no write: the environment is returned as it was. When it finds an
  \<^verbatim>\<open>input\<close> element \<open>r\<close> of a type other than \<^verbatim>\<open>file\<close>, it raises nothing and makes
  exactly one write of \<^verbatim>\<open>"Hi there!"\<close> to the \<^verbatim>\<open>value\<close> of \<open>r\<close>: in the mode value the
  value of the element becomes the sanitized text and the dirty value flag is set; in
  the modes default and default/on the \<^verbatim>\<open>value\<close> content attribute becomes the text.
  On an \<^verbatim>\<open>input\<close> element of the type \<^verbatim>\<open>file\<close> it raises \<^verbatim>\<open>InvalidStateError\<close>.
\<close>

theorem guarded_write:
  "(getElementById w ''user-input'' = None \<longrightarrow> userInputElement3 w = Inr w) \<and>
   (getElementById w ''user-input'' = Some r \<and>
    interface (document w ! r) = HTMLInputElement ty \<longrightarrow>
      (ty \<noteq> InFile \<longrightarrow>
         (\<exists>w'. userInputElement3 w = Inr w' \<and>
               trace w' = trace w @ [Assign r ''value'' (Str ''Hi there!'')])) \<and>
      (mode_of ty = ModeValue \<longrightarrow>
         userInputElement3 w =
           Inr (w\<lparr>document :=
                    (document w)
                      [r := (document w ! r)
                         \<lparr>current_value := sanitization (document w ! r) ''Hi there!'',
                          dirty_value := True\<rparr>],
                  trace := trace w @ [Assign r ''value'' (Str ''Hi there!'')]\<rparr>)) \<and>
      (mode_of ty = ModeDefault \<or> mode_of ty = ModeDefaultOn \<longrightarrow>
         userInputElement3 w =
           Inr (w\<lparr>document :=
                    (document w)
                      [r := (document w ! r)
                         \<lparr>value_attribute := Some ''Hi there!'',
                          current_value :=
                            (if dirty_value (document w ! r) then current_value (document w ! r)
                             else sanitization (document w ! r) ''Hi there!'')\<rparr>],
                  trace := trace w @ [Assign r ''value'' (Str ''Hi there!'')]\<rparr>)) \<and>
      (ty = InFile \<longrightarrow> userInputElement3 w = Inl InvalidStateError))"
  by (cases ty)
    (auto simp: userInputElement3_def assign_value_def put_value_def set_input_value_def)

text \<open>
  A document without the element; a text input, whose value becomes the text; a
  checkbox, whose \<^verbatim>\<open>value\<close> attribute becomes the text; a file input.
\<close>

theorem guarded_write_witness:
  "userInputElement3 \<lparr>document = [], trace = []\<rparr> = Inr \<lparr>document = [], trace = []\<rparr> \<and>
   userInputElement3
     \<lparr>document = [user_input (HTMLInputElement InText) strip_newlines], trace = []\<rparr> =
     Inr \<lparr>document =
            [(user_input (HTMLInputElement InText) strip_newlines)
               \<lparr>current_value := ''Hi there!'', dirty_value := True\<rparr>],
          trace = [Assign 0 ''value'' (Str ''Hi there!'')]\<rparr> \<and>
   userInputElement3 \<lparr>document = [user_input (HTMLInputElement InCheckbox) id], trace = []\<rparr> =
     Inr \<lparr>document =
            [(user_input (HTMLInputElement InCheckbox) id)
               \<lparr>value_attribute := Some ''Hi there!'', current_value := ''Hi there!''\<rparr>],
          trace = [Assign 0 ''value'' (Str ''Hi there!'')]\<rparr> \<and>
   userInputElement3 \<lparr>document = [user_input (HTMLInputElement InFile) id], trace = []\<rparr> =
     Inl InvalidStateError"
  using guarded_write [of "\<lparr>document = [], trace = []\<rparr>" 0 InText]
    guarded_write
      [of "\<lparr>document = [user_input (HTMLInputElement InText) strip_newlines], trace = []\<rparr>"
          0 InText]
    guarded_write
      [of "\<lparr>document = [user_input (HTMLInputElement InCheckbox) id], trace = []\<rparr>"
          0 InCheckbox]
    guarded_write
      [of "\<lparr>document = [user_input (HTMLInputElement InFile) id], trace = []\<rparr>" 0 InFile]
  by (simp add: getElementById_def user_input_def strip_newlines_Hi_there)

text \<open>
  Claim C7 says that the unguarded write fails with an error when the element is absent
  and also when it is present but has no \<^verbatim>\<open>value\<close> field. The second half does not
  hold: the assertions leave no check behind, and an assignment to a property that an
  object lacks adds the property. On a document whose element \<^verbatim>\<open>user-input\<close> is of an
  interface without \<^verbatim>\<open>value\<close>, the write succeeds.
\<close>

theorem unchecked_write_missing_field_counterexample:
  "getElementById \<lparr>document = [user_input OtherElement id], trace = []\<rparr> ''user-input'' =
     Some 0 \<and>
   interface (document \<lparr>document = [user_input OtherElement id], trace = []\<rparr> ! 0) =
     OtherElement \<and>
   \<not> has_property ''value''
       (own_properties
         (document \<lparr>document = [user_input OtherElement id], trace = []\<rparr> ! 0)) \<and>
   userInputElement1 \<lparr>document = [user_input OtherElement id], trace = []\<rparr> =
     Inr \<lparr>document =
            [(user_input OtherElement id)
               \<lparr>own_properties := [(''value'', Str ''Hi there!'')]\<rparr>],
          trace = [Assign 0 ''value'' (Str ''Hi there!'')]\<rparr>"
  by (simp add: userInputElement1_def assign_value_def getElementById_def put_value_def
      user_input_def has_property_def)

text \<open>
  Claim C7 as amended. When the lookup finds no element, the unguarded write fails with
  a \<^verbatim>\<open>TypeError\<close> at the assignment and nothing recovers from it: the statements that
  follow are not run.
\<close>

theorem unchecked_write_fails_when_absent:
  "getElementById w ''user-input'' = None \<Longrightarrow>
   userInputElement1 w = Inl (TypeError ''Cannot set properties of null'') \<and>
   unchecked_writes w = Inl (TypeError ''Cannot set properties of null'')"
  by (simp add: userInputElement1_def unchecked_writes_def assign_value_def)

text \<open>An empty document, and a document whose only element has another \<^verbatim>\<open>id\<close>.\<close>

theorem unchecked_write_fails_when_absent_witness:
  "userInputElement1 \<lparr>document = [], trace = []\<rparr> =
     Inl (TypeError ''Cannot set properties of null'') \<and>
   unchecked_writes \<lparr>document = [], trace = []\<rparr> =
     Inl (TypeError ''Cannot set properties of null'') \<and>
   unchecked_writes
     \<lparr>document = [(user_input OtherElement id)\<lparr>ident := ''message-output''\<rparr>], trace = []\<rparr> =
     Inl (TypeError ''Cannot set properties of null'')"
  using unchecked_write_fails_when_absent [of "\<lparr>document = [], trace = []\<rparr>"]
    unchecked_write_fails_when_absent
      [of "\<lparr>document = [(user_input OtherElement id)\<lparr>ident := ''message-output''\<rparr>],
            trace = []\<rparr>"]
  by (simp add: getElementById_def user_input_def)

section \<open>Absent values\<close>

text \<open>
  Claim C8. \<^verbatim>\<open>a ?? b\<close> is \<open>b\<close> when \<open>a\<close> is \<^verbatim>\<open>null\<close> or \<^verbatim>\<open>undefined\<close> and is \<open>a\<close> otherwise,
  also when \<open>a\<close> is falsy. In the script the input is \<^verbatim>\<open>null\<close> and both operators give
  \<^verbatim>\<open>"DEFAULT"\<close>; on the empty string (and on zero) \<^verbatim>\<open>??\<close> keeps the input while
  \<^verbatim>\<open>||\<close> gives \<^verbatim>\<open>"DEFAULT"\<close>.
\<close>

theorem nullish_coalescing_only_on_absent:
  "nullish_coalescing a b = (if a = Null \<or> a = Undefined then b else a) \<and>
   storedDatas = Str ''DEFAULT'' \<and>
   storedData = Str ''DEFAULT'' \<and>
   nullish_coalescing Undefined (Str ''DEFAULT'') = Str ''DEFAULT'' \<and>
   nullish_coalescing (Str []) (Str ''DEFAULT'') = Str [] \<and>
   logical_or (Str []) (Str ''DEFAULT'') = Str ''DEFAULT'' \<and>
   nullish_coalescing (Num (Fin 0)) (Str ''DEFAULT'') = Num (Fin 0) \<and>
   logical_or (Num (Fin 0)) (Str ''DEFAULT'') = Str ''DEFAULT''"
  by (cases a) (simp_all add: storedDatas_def storedData_def userInput_def logical_or_def)








end
